theory Spec2Isabelle
  imports Main "HOL-Library.Sublist" "HOL-Library.Multiset" "HOL-Library.Product_Lexorder"
begin

section \<open>The document tracking server (server.js, init-db.js)\<close>

text \<open>
  The server keeps three tables (events, alerts, incidents) in SQLite, answers the
  tracking endpoints by inserting rows and broadcasting to the dashboards, and answers
  the query endpoints by SELECT statements. The model passes the state explicitly: the
  three tables as lists in insertion order, the connected dashboards, and a trace of
  what each request did beyond the tables (broadcasts, anomaly evaluations).

  Conventions of the model:
  \<^item> a JavaScript value that is a string, \<open>undefined\<close> or \<open>null\<close> is a
    \<open>string option\<close>; request fields are strings or absent;
    \<open>x || y\<close> on such values is \<open>or_else\<close>: the empty string is falsy;
  \<^item> a timestamp is the number of milliseconds since the epoch (an \<open>int\<close>); the
    ISO-8601 text that \<open>toISOString\<close> writes and \<open>new Date(text)\<close> reads back
    denotes that number, and ISO texts of one length order as their numbers do;
  \<^item> an exception thrown inside a handler is a value of \<open>exn\<close>; the state at the
    moment it is thrown is kept, since rows inserted before it stay in the table;
  \<^item> what a request reads from outside (random identifiers, the clock, the time zone,
    the geo-IP database) is a field of \<open>env\<close>.
\<close>

subsection \<open>JavaScript values\<close>

definition truthy :: "string option \<Rightarrow> bool" where
  "truthy v = (case v of None \<Rightarrow> False | Some s \<Rightarrow> s \<noteq> [])"

definition or_else :: "string option \<Rightarrow> string option \<Rightarrow> string option" where
  "or_else a b = (if truthy a then a else b)"

text \<open>\<open>x || null\<close>\<close>

definition or_null :: "string option \<Rightarrow> string option" where
  "or_null a = or_else a None"

text \<open>\<open>x || 'text'\<close>\<close>

definition or_text :: "string option \<Rightarrow> string \<Rightarrow> string" where
  "or_text a d = (case or_else a (Some d) of None \<Rightarrow> d | Some s \<Rightarrow> s)"

text \<open>A value inside a template literal: \<open>null\<close> prints as the word.\<close>

definition template :: "string option \<Rightarrow> string" where
  "template v = (case v of None \<Rightarrow> ''null'' | Some s \<Rightarrow> s)"

fun starts_with :: "string \<Rightarrow> string \<Rightarrow> bool" where
  "starts_with s [] = True"
| "starts_with [] (p # ps) = False"
| "starts_with (c # cs) (p # ps) = (c = p \<and> starts_with cs ps)"

text \<open>\<open>String.prototype.includes\<close> on a string\<close>

fun includes_text :: "string \<Rightarrow> string \<Rightarrow> bool" where
  "includes_text [] sub = (sub = [])"
| "includes_text (c # cs) sub = (starts_with (c # cs) sub \<or> includes_text cs sub)"

fun show_nat :: "nat \<Rightarrow> string" where
  "show_nat n =
     (if n < 10 then [''0123456789'' ! n]
      else show_nat (n div 10) @ [''0123456789'' ! (n mod 10)])"

subsection \<open>\<open>parseInt\<close> with no radix\<close>

text \<open>
  \<open>parseInt(text)\<close>: leading white space is skipped, then an optional sign, then an
  optional \<open>0x\<close>/\<open>0X\<close> that switches to radix 16, then the longest run of digits
  of the radix; with no digit the result is \<open>NaN\<close> (\<open>None\<close>). The white space of
  the model is that of the 8-bit characters (tab, line feed, vertical tab, form feed,
  carriage return, space, no-break space).
\<close>

definition is_space :: "char \<Rightarrow> bool" where
  "is_space c = (of_char c \<in> {9, 10, 11, 12, 13, 32, 160 :: nat})"

definition digit_value :: "char \<Rightarrow> nat" where
  "digit_value c =
     (let n = (of_char c :: nat) in
      if 48 \<le> n \<and> n \<le> 57 then n - 48
      else if 97 \<le> n \<and> n \<le> 122 then n - 87
      else if 65 \<le> n \<and> n \<le> 90 then n - 55
      else 36)"

fun digits_value :: "nat \<Rightarrow> nat \<Rightarrow> string \<Rightarrow> nat" where
  "digits_value R acc [] = acc"
| "digits_value R acc (c # cs) =
     (if digit_value c < R then digits_value R (acc * R + digit_value c) cs else acc)"

definition parse_digits :: "nat \<Rightarrow> string \<Rightarrow> nat option" where
  "parse_digits R s =
     (case s of
        [] \<Rightarrow> None
      | c # cs \<Rightarrow> if digit_value c < R then Some (digits_value R 0 s) else None)"

definition parse_unsigned :: "string \<Rightarrow> nat option" where
  "parse_unsigned s =
     (if starts_with s ''0x'' \<or> starts_with s ''0X'' then parse_digits 16 (drop 2 s)
      else parse_digits 10 s)"

definition parseInt :: "string option \<Rightarrow> int option" where
  "parseInt v =
     (let s = dropWhile is_space (template (case v of None \<Rightarrow> Some ''undefined'' | Some t \<Rightarrow> Some t))
      in case s of
           [] \<Rightarrow> None
         | c # cs \<Rightarrow>
             if c = CHR ''-'' then map_option (\<lambda>n. - int n) (parse_unsigned cs)
             else if c = CHR ''+'' then map_option int (parse_unsigned cs)
             else map_option int (parse_unsigned s))"

subsection \<open>Rows and messages\<close>

text \<open>
  An event as \<open>saveEvent\<close> receives it (an object literal) and as it returns and stores
  it. Every handler gives \<open>id\<close>, \<open>type\<close> and \<open>timestamp\<close>; a field that a literal
  leaves out is \<open>None\<close>. The columns \<open>city\<close>, \<open>country\<close> and \<open>createdAt\<close> of
  the events table are never written or read by the server and are left out.
\<close>

record event =
  ev_id :: string
  ev_type :: string
  ev_documentId :: "string option"
  ev_recipientId :: "string option"
  ev_action :: "string option"
  ev_pageNumber :: "int option"
  ev_timeSpent :: "int option"
  ev_timestamp :: int
  ev_ipAddress :: "string option"
  ev_location :: "string option"
  ev_device :: "string option"
  ev_userAgent :: "string option"
  ev_risk :: "string option"
  ev_watermarkId :: "string option"
  ev_forwardedTo :: "string option"
  ev_unauthorized :: bool

record alert =
  al_id :: string
  al_type :: string
  al_severity :: string
  al_message :: string
  al_eventId :: "string option"
  al_documentId :: "string option"
  al_recipientId :: "string option"
  al_requiresAction :: bool

text \<open>A row of the alerts table: the record and the \<open>createdAt\<close> the table adds.\<close>

record alert_row =
  row_alert :: alert
  row_createdAt :: int

record incident =
  inc_id :: string
  inc_type :: string
  inc_severity :: string
  inc_documentId :: "string option"
  inc_fromRecipient :: "string option"
  inc_toRecipient :: "string option"
  inc_status :: string
  inc_timestamp :: int

record finding =
  fd_type :: string
  fd_severity :: string
  fd_message :: string

datatype message =
    TRACKING_EVENT event
  | DOCUMENT_OPENED event
  | PAGE_VIEWED event
  | DOWNLOAD_ALERT event alert
  | CRITICAL_ALERT event alert
  | UNAUTHORIZED_SHARE_ALERT event incident alert
  | COPY_DETECTED event
  | ANOMALY_DETECTED "finding list" event
  | CONNECTED nat nat nat "event list"

text \<open>
  The trace: a broadcast to every open dashboard, a snapshot sent to one dashboard, and
  one entry for each call of \<open>checkForAnomalies\<close> with the anomalies it collected.
\<close>

datatype action =
    Broadcast message
  | Sent_To nat message
  | Evaluated "finding list"

record state =
  db_events :: "event list"
  db_alerts :: "alert_row list"
  db_incidents :: "incident list"
  clients :: "nat list"
  trace :: "action list"

datatype exn = SqliteError | RangeError

datatype geo_result = Geo_Throws | Geo_Null | Geo_Found string string

record env =
  uuid_event :: string
  uuid_alert :: string
  uuid_incident :: string
  uuid_default :: string
  clock_event :: int
  clock_incident :: int
  clock_check :: int
  clock_db :: int
  local_hour :: "int \<Rightarrow> nat"
  geoip_lookup :: "string \<Rightarrow> geo_result"

record request =
  rq_documentId :: "string option"
  rq_recipientId :: "string option"
  rq_watermarkId :: "string option"
  rq_pageNumber :: "int option"
  rq_timeSpent :: "int option"
  rq_forwardedTo :: "string option"
  rq_action :: "string option"
  rq_ts :: "string option"
  rq_forwarded_for :: "string option"
  rq_remoteAddress :: "string option"
  rq_user_agent :: "string option"

datatype json = JBool bool | JString string

datatype body = Json "(string \<times> json) list" | Bytes "nat list" | Error_Page

record response =
  rs_status :: nat
  rs_headers :: "(string \<times> string) list"
  rs_body :: body

datatype outcome = Threw exn | Responded response

subsection \<open>Helper functions\<close>

definition getClientIP :: "request \<Rightarrow> string" where
  "getClientIP rq =
     or_text
       (or_else (map_option (takeWhile (\<lambda>c. c \<noteq> CHR '','')) (rq_forwarded_for rq))
          (rq_remoteAddress rq))
       ''unknown''"

definition getLocationFromIP :: "env \<Rightarrow> string \<Rightarrow> string" where
  "getLocationFromIP env ip =
     (if ip = ''unknown'' then ''Unknown Location''
      else case geoip_lookup env ip of
             Geo_Found city country \<Rightarrow>
               or_text (Some city) ''Unknown'' @ '', '' @ or_text (Some country) ''Unknown''
           | Geo_Null \<Rightarrow> ''Unknown Location''
           | Geo_Throws \<Rightarrow> ''Unknown Location'')"

definition parseBrowserInfo :: "string option \<Rightarrow> string" where
  "parseBrowserInfo userAgent =
     (case userAgent of
        None \<Rightarrow> ''Unknown''
      | Some ua \<Rightarrow>
          if ua = [] then ''Unknown''
          else if includes_text ua ''Chrome'' then ''Chrome''
          else if includes_text ua ''Safari'' \<and> \<not> includes_text ua ''Chrome'' then ''Safari''
          else if includes_text ua ''Firefox'' then ''Firefox''
          else if includes_text ua ''Edge'' then ''Edge''
          else ''Unknown'')"

definition broadcastToAdmins :: "message \<Rightarrow> state \<Rightarrow> state" where
  "broadcastToAdmins m s = s\<lparr>trace := trace s @ [Broadcast m]\<rparr>"

text \<open>
  \<open>new Date(t).toISOString()\<close> throws a RangeError when \<open>t\<close> is not a time value
  (beyond 8.64e15 milliseconds either side of the epoch).
\<close>

definition toISOString :: "int \<Rightarrow> exn + int" where
  "toISOString t = (if \<bar>t\<bar> \<le> 8640000000000000 then Inr t else Inl RangeError)"

subsection \<open>The three INSERT statements\<close>

text \<open>
  The constraints of init-db.js: \<open>id\<close> is the primary key of each table;
  \<open>documentId\<close> and \<open>recipientId\<close> of an event and \<open>documentId\<close> of an incident
  are NOT NULL, so the statement throws when the value is absent; an alert's
  \<open>eventId\<close> refers to an event. The other NOT NULL columns always hold a string in
  the model.
\<close>

definition insertEvent :: "event \<Rightarrow> state \<Rightarrow> exn + state" where
  "insertEvent r s =
     (if ev_documentId r = None \<or> ev_recipientId r = None \<or> ev_id r \<in> set (map ev_id (db_events s))
      then Inl SqliteError
      else Inr (s\<lparr>db_events := db_events s @ [r]\<rparr>))"

definition saveEvent :: "env \<Rightarrow> event \<Rightarrow> state \<Rightarrow> exn + event \<times> state" where
  "saveEvent env event s =
     (let record =
        \<lparr>ev_id = or_text (Some (ev_id event)) (uuid_default env),
         ev_type = ev_type event,
         ev_documentId = ev_documentId event,
         ev_recipientId = ev_recipientId event,
         ev_action = or_null (ev_action event),
         ev_pageNumber = ev_pageNumber event,
         ev_timeSpent = ev_timeSpent event,
         ev_timestamp = ev_timestamp event,
         ev_ipAddress = or_null (ev_ipAddress event),
         ev_location = or_null (ev_location event),
         ev_device = or_null (ev_device event),
         ev_userAgent = or_null (ev_userAgent event),
         ev_risk = or_null (ev_risk event),
         ev_watermarkId = or_null (ev_watermarkId event),
         ev_forwardedTo = or_null (ev_forwardedTo event),
         ev_unauthorized = ev_unauthorized event\<rparr>
      in case insertEvent record s of
           Inl x \<Rightarrow> Inl x
         | Inr s' \<Rightarrow> Inr (record, s'))"

definition insertAlert :: "int \<Rightarrow> alert \<Rightarrow> state \<Rightarrow> exn + state" where
  "insertAlert created r s =
     (if al_id r \<in> set (map (\<lambda>a. al_id (row_alert a)) (db_alerts s))
         \<or> (case al_eventId r of None \<Rightarrow> False | Some i \<Rightarrow> i \<notin> set (map ev_id (db_events s)))
      then Inl SqliteError
      else Inr (s\<lparr>db_alerts := db_alerts s @ [\<lparr>row_alert = r, row_createdAt = created\<rparr>]\<rparr>))"

definition saveAlert :: "env \<Rightarrow> alert \<Rightarrow> state \<Rightarrow> exn + alert \<times> state" where
  "saveAlert env alert s =
     (let record =
        \<lparr>al_id = or_text (Some (al_id alert)) (uuid_default env),
         al_type = al_type alert,
         al_severity = al_severity alert,
         al_message = al_message alert,
         al_eventId = or_null (al_eventId alert),
         al_documentId = or_null (al_documentId alert),
         al_recipientId = or_null (al_recipientId alert),
         al_requiresAction = al_requiresAction alert\<rparr>
      in case insertAlert (clock_db env) record s of
           Inl x \<Rightarrow> Inl x
         | Inr s' \<Rightarrow> Inr (record, s'))"

definition insertIncident :: "incident \<Rightarrow> state \<Rightarrow> exn + state" where
  "insertIncident r s =
     (if inc_documentId r = None \<or> inc_id r \<in> set (map inc_id (db_incidents s))
      then Inl SqliteError
      else Inr (s\<lparr>db_incidents := db_incidents s @ [r]\<rparr>))"

definition saveIncident :: "env \<Rightarrow> incident \<Rightarrow> state \<Rightarrow> exn + incident \<times> state" where
  "saveIncident env incident s =
     (let record =
        \<lparr>inc_id = or_text (Some (inc_id incident)) (uuid_default env),
         inc_type = inc_type incident,
         inc_severity = inc_severity incident,
         inc_documentId = inc_documentId incident,
         inc_fromRecipient = or_null (inc_fromRecipient incident),
         inc_toRecipient = or_null (inc_toRecipient incident),
         inc_status = or_text (Some (inc_status incident)) ''open'',
         inc_timestamp = inc_timestamp incident\<rparr>
      in case insertIncident record s of
           Inl x \<Rightarrow> Inl x
         | Inr s' \<Rightarrow> Inr (record, s'))"

subsection \<open>The anomaly checks\<close>

text \<open>An array with its duplicates removed, as \<open>[...new Set(xs)]\<close> orders it.\<close>

definition uniq :: "'a list \<Rightarrow> 'a list" where
  "uniq xs = rev (remdups (rev xs))"

text \<open>
  The body of \<open>checkForAnomalies\<close> after the SELECT: the three checks, each pushing at
  most one anomaly. \<open>now\<close> is \<open>Date.now()\<close>; \<open>hour_of\<close> is the local hour of a
  time value (\<open>getHours\<close>), which depends on the time zone of the host.
\<close>

definition anomalies_of :: "int \<Rightarrow> (int \<Rightarrow> nat) \<Rightarrow> event \<Rightarrow> event list \<Rightarrow> finding list" where
  "anomalies_of now hour_of event recipientEvents =
     (let locations = uniq (filter truthy (map ev_location recipientEvents));
          check1 =
            (if length locations > 3 \<and> truthy (ev_location event)
                \<and> ev_location event \<notin> set locations
             then [\<lparr>fd_type = ''UNUSUAL_LOCATION'', fd_severity = ''medium'',
                    fd_message = ''New location detected: '' @ template (ev_location event)\<rparr>]
             else []);
          hour = hour_of (ev_timestamp event);
          check2 =
            (if hour < 6 \<or> hour > 22
             then [\<lparr>fd_type = ''UNUSUAL_TIME'', fd_severity = ''low'',
                    fd_message = ''Access at '' @ show_nat hour @ '':00 - outside business hours''\<rparr>]
             else []);
          oneMinuteAgo = now - 60000;
          recentEvents = filter (\<lambda>e. ev_timestamp e \<ge> oneMinuteAgo) recipientEvents;
          check3 =
            (if length recentEvents > 5
             then [\<lparr>fd_type = ''RAPID_ACCESS'', fd_severity = ''high'',
                    fd_message = show_nat (length recentEvents)
                      @ '' accesses in 1 minute - possible data exfiltration''\<rparr>]
             else [])
      in check1 @ check2 @ check3)"

text \<open>\<open>SELECT * FROM events WHERE recipientId = ?\<close>; NULL equals nothing.\<close>

definition events_of_recipient :: "string option \<Rightarrow> state \<Rightarrow> event list" where
  "events_of_recipient recipientId s =
     (case recipientId of
        None \<Rightarrow> []
      | Some r \<Rightarrow> filter (\<lambda>e. ev_recipientId e = Some r) (db_events s))"

definition checkForAnomalies :: "env \<Rightarrow> event \<Rightarrow> string option \<Rightarrow> state \<Rightarrow> state" where
  "checkForAnomalies env event recipientId s =
     (let recipientEvents = events_of_recipient recipientId s;
          anomalies = anomalies_of (clock_check env) (local_hour env) event recipientEvents;
          s1 = s\<lparr>trace := trace s @ [Evaluated anomalies]\<rparr>
      in if length anomalies > 0
         then broadcastToAdmins (ANOMALY_DETECTED anomalies event) s1
         else s1)"

subsection \<open>The tracking endpoints\<close>

text \<open>An object literal with no field set; each handler sets the fields it writes.\<close>

definition literal :: event where
  "literal =
     \<lparr>ev_id = [], ev_type = [], ev_documentId = None, ev_recipientId = None,
      ev_action = None, ev_pageNumber = None, ev_timeSpent = None, ev_timestamp = 0,
      ev_ipAddress = None, ev_location = None, ev_device = None, ev_userAgent = None,
      ev_risk = None, ev_watermarkId = None, ev_forwardedTo = None,
      ev_unauthorized = False\<rparr>"

definition res_json :: "(string \<times> json) list \<Rightarrow> response" where
  "res_json obj =
     \<lparr>rs_status = 200,
      rs_headers = [(''Content-Type'', ''application/json; charset=utf-8'')],
      rs_body = Json obj\<rparr>"

definition pixel :: "nat list" where
  "pixel =
     [0x47, 0x49, 0x46, 0x38, 0x39, 0x61, 0x01, 0x00, 0x01, 0x00, 0x80, 0x00, 0x00,
      0xff, 0xff, 0xff, 0x00, 0x00, 0x00, 0x21, 0xf9, 0x04, 0x01, 0x0a, 0x00, 0x01,
      0x00, 0x2c, 0x00, 0x00, 0x00, 0x00, 0x01, 0x00, 0x01, 0x00, 0x00, 0x02, 0x02,
      0x4d, 0x01, 0x00, 0x3b]"

definition pixel_response :: response where
  "pixel_response =
     \<lparr>rs_status = 200,
      rs_headers = [(''Content-Type'', ''image/gif''),
                    (''Cache-Control'', ''no-cache, no-store, must-revalidate'')],
      rs_body = Bytes pixel\<rparr>"

text \<open>\<open>parseInt(ts) || Date.now()\<close>: \<open>NaN\<close> and 0 are falsy.\<close>

definition number_or :: "int option \<Rightarrow> int \<Rightarrow> int" where
  "number_or v d = (case v of None \<Rightarrow> d | Some n \<Rightarrow> if n = 0 then d else n)"

definition track_pixel :: "request \<Rightarrow> env \<Rightarrow> state \<Rightarrow> outcome \<times> state" where
  "track_pixel rq env s =
     (let documentId = rq_documentId rq; recipientId = rq_recipientId rq;
          action = rq_action rq; ts = rq_ts rq;
          ip = getClientIP rq;
          location = getLocationFromIP env ip
      in case toISOString (number_or (parseInt ts) (clock_event env)) of
           Inl x \<Rightarrow> (Threw x, s)
         | Inr timestamp \<Rightarrow>
             (case saveEvent env
                (literal\<lparr>ev_id := uuid_event env,
                   ev_type := ''pixel_beacon'',
                   ev_documentId := documentId,
                   ev_recipientId := recipientId,
                   ev_action := Some (or_text action ''viewed''),
                   ev_timestamp := timestamp,
                   ev_ipAddress := Some ip,
                   ev_location := Some location,
                   ev_device := Some (parseBrowserInfo (rq_user_agent rq)),
                   ev_userAgent := rq_user_agent rq\<rparr>) s of
                Inl x \<Rightarrow> (Threw x, s)
              | Inr (event, s1) \<Rightarrow>
                  (Responded pixel_response, broadcastToAdmins (TRACKING_EVENT event) s1)))"

definition track_document_open :: "request \<Rightarrow> env \<Rightarrow> state \<Rightarrow> outcome \<times> state" where
  "track_document_open rq env s =
     (let documentId = rq_documentId rq; recipientId = rq_recipientId rq;
          watermarkId = rq_watermarkId rq;
          ip = getClientIP rq;
          location = getLocationFromIP env ip
      in case saveEvent env
           (literal\<lparr>ev_id := uuid_event env,
              ev_type := ''document_opened'',
              ev_documentId := documentId,
              ev_recipientId := recipientId,
              ev_watermarkId := watermarkId,
              ev_timestamp := clock_event env,
              ev_ipAddress := Some ip,
              ev_location := Some location,
              ev_device := Some (parseBrowserInfo (rq_user_agent rq)),
              ev_userAgent := rq_user_agent rq,
              ev_risk := Some ''low''\<rparr>) s of
           Inl x \<Rightarrow> (Threw x, s)
         | Inr (event, s1) \<Rightarrow>
             (let s2 = broadcastToAdmins (DOCUMENT_OPENED event) s1;
                  s3 = checkForAnomalies env event recipientId s2
              in (Responded (res_json [(''success'', JBool True), (''eventId'', JString (ev_id event))]),
                  s3)))"

definition track_page_view :: "request \<Rightarrow> env \<Rightarrow> state \<Rightarrow> outcome \<times> state" where
  "track_page_view rq env s =
     (let documentId = rq_documentId rq; recipientId = rq_recipientId rq;
          pageNumber = rq_pageNumber rq; timeSpent = rq_timeSpent rq;
          ip = getClientIP rq;
          location = getLocationFromIP env ip
      in case saveEvent env
           (literal\<lparr>ev_id := uuid_event env,
              ev_type := ''page_viewed'',
              ev_documentId := documentId,
              ev_recipientId := recipientId,
              ev_pageNumber := pageNumber,
              ev_timeSpent := timeSpent,
              ev_timestamp := clock_event env,
              ev_ipAddress := Some ip,
              ev_location := Some location,
              ev_device := Some (parseBrowserInfo (rq_user_agent rq)),
              ev_userAgent := rq_user_agent rq\<rparr>) s of
           Inl x \<Rightarrow> (Threw x, s)
         | Inr (event, s1) \<Rightarrow>
             (Responded (res_json [(''success'', JBool True)]),
              broadcastToAdmins (PAGE_VIEWED event) s1))"

definition track_download :: "request \<Rightarrow> env \<Rightarrow> state \<Rightarrow> outcome \<times> state" where
  "track_download rq env s =
     (let documentId = rq_documentId rq; recipientId = rq_recipientId rq;
          ip = getClientIP rq;
          location = getLocationFromIP env ip
      in case saveEvent env
           (literal\<lparr>ev_id := uuid_event env,
              ev_type := ''document_downloaded'',
              ev_documentId := documentId,
              ev_recipientId := recipientId,
              ev_timestamp := clock_event env,
              ev_ipAddress := Some ip,
              ev_location := Some location,
              ev_device := Some (parseBrowserInfo (rq_user_agent rq)),
              ev_userAgent := rq_user_agent rq,
              ev_risk := Some ''high''\<rparr>) s of
           Inl x \<Rightarrow> (Threw x, s)
         | Inr (event, s1) \<Rightarrow>
             (case saveAlert env
                \<lparr>al_id = uuid_alert env,
                 al_type = ''HIGH_RISK_ACTION'',
                 al_severity = ''high'',
                 al_message = ''Document downloaded from '' @ template (ev_location event),
                 al_eventId = Some (ev_id event),
                 al_documentId = documentId,
                 al_recipientId = recipientId,
                 al_requiresAction = False\<rparr> s1 of
                Inl x \<Rightarrow> (Threw x, s1)
              | Inr (alert, s2) \<Rightarrow>
                  (Responded (res_json [(''success'', JBool True)]),
                   broadcastToAdmins (DOWNLOAD_ALERT event alert) s2)))"

definition track_print :: "request \<Rightarrow> env \<Rightarrow> state \<Rightarrow> outcome \<times> state" where
  "track_print rq env s =
     (let documentId = rq_documentId rq; recipientId = rq_recipientId rq;
          ip = getClientIP rq;
          location = getLocationFromIP env ip
      in case saveEvent env
           (literal\<lparr>ev_id := uuid_event env,
              ev_type := ''document_printed'',
              ev_documentId := documentId,
              ev_recipientId := recipientId,
              ev_timestamp := clock_event env,
              ev_ipAddress := Some ip,
              ev_location := Some location,
              ev_device := Some (parseBrowserInfo (rq_user_agent rq)),
              ev_userAgent := rq_user_agent rq,
              ev_risk := Some ''critical''\<rparr>) s of
           Inl x \<Rightarrow> (Threw x, s)
         | Inr (event, s1) \<Rightarrow>
             (case saveAlert env
                \<lparr>al_id = uuid_alert env,
                 al_type = ''CRITICAL_ACTION'',
                 al_severity = ''critical'',
                 al_message = ''CRITICAL: Document printed! Physical leak possible!'',
                 al_eventId = Some (ev_id event),
                 al_documentId = documentId,
                 al_recipientId = recipientId,
                 al_requiresAction = True\<rparr> s1 of
                Inl x \<Rightarrow> (Threw x, s1)
              | Inr (alert, s2) \<Rightarrow>
                  (Responded (res_json [(''success'', JBool True), (''alertSent'', JBool True)]),
                   broadcastToAdmins (CRITICAL_ALERT event alert) s2)))"

definition track_forward :: "request \<Rightarrow> env \<Rightarrow> state \<Rightarrow> outcome \<times> state" where
  "track_forward rq env s =
     (let documentId = rq_documentId rq; recipientId = rq_recipientId rq;
          forwardedTo = rq_forwardedTo rq;
          ip = getClientIP rq;
          location = getLocationFromIP env ip
      in case saveEvent env
           (literal\<lparr>ev_id := uuid_event env,
              ev_type := ''document_forwarded'',
              ev_documentId := documentId,
              ev_recipientId := recipientId,
              ev_forwardedTo := forwardedTo,
              ev_timestamp := clock_event env,
              ev_ipAddress := Some ip,
              ev_location := Some location,
              ev_device := Some (parseBrowserInfo (rq_user_agent rq)),
              ev_userAgent := rq_user_agent rq,
              ev_risk := Some ''critical'',
              ev_unauthorized := True\<rparr>) s of
           Inl x \<Rightarrow> (Threw x, s)
         | Inr (event, s1) \<Rightarrow>
             (case saveIncident env
                \<lparr>inc_id = uuid_incident env,
                 inc_type = ''UNAUTHORIZED_FORWARDING'',
                 inc_severity = ''CRITICAL'',
                 inc_documentId = documentId,
                 inc_fromRecipient = recipientId,
                 inc_toRecipient = forwardedTo,
                 inc_status = ''open'',
                 inc_timestamp = clock_incident env\<rparr> s1 of
                Inl x \<Rightarrow> (Threw x, s1)
              | Inr (incident, s2) \<Rightarrow>
                  (case saveAlert env
                     \<lparr>al_id = uuid_alert env,
                      al_type = ''UNAUTHORIZED_SHARE'',
                      al_severity = ''critical'',
                      al_message = ''Document forwarded to: ''
                        @ (case forwardedTo of None \<Rightarrow> ''undefined'' | Some t \<Rightarrow> t),
                      al_eventId = Some (ev_id event),
                      al_documentId = documentId,
                      al_recipientId = recipientId,
                      al_requiresAction = True\<rparr> s2 of
                     Inl x \<Rightarrow> (Threw x, s2)
                   | Inr (alert, s3) \<Rightarrow>
                       (Responded
                          (res_json [(''success'', JBool True), (''incidentCreated'', JBool True)]),
                        broadcastToAdmins (UNAUTHORIZED_SHARE_ALERT event incident alert) s3))))"

definition track_copy :: "request \<Rightarrow> env \<Rightarrow> state \<Rightarrow> outcome \<times> state" where
  "track_copy rq env s =
     (let documentId = rq_documentId rq; recipientId = rq_recipientId rq;
          ip = getClientIP rq;
          location = getLocationFromIP env ip
      in case saveEvent env
           (literal\<lparr>ev_id := uuid_event env,
              ev_type := ''copy_attempt'',
              ev_documentId := documentId,
              ev_recipientId := recipientId,
              ev_timestamp := clock_event env,
              ev_ipAddress := Some ip,
              ev_location := Some location,
              ev_device := Some (parseBrowserInfo (rq_user_agent rq)),
              ev_userAgent := rq_user_agent rq,
              ev_risk := Some ''medium''\<rparr>) s of
           Inl x \<Rightarrow> (Threw x, s)
         | Inr (event, s1) \<Rightarrow>
             (Responded (res_json [(''success'', JBool True)]),
              broadcastToAdmins (COPY_DETECTED event) s1))"

text \<open>
  The router: one route for each tracking endpoint. The pictographs that open the three
  alert messages in the source are outside the character type and are left out.
\<close>

datatype route = Pixel | Document_Open | Page_View | Download | Print | Forward | Copy

fun track :: "route \<Rightarrow> request \<Rightarrow> env \<Rightarrow> state \<Rightarrow> outcome \<times> state" where
  "track Pixel = track_pixel"
| "track Document_Open = track_document_open"
| "track Page_View = track_page_view"
| "track Download = track_download"
| "track Print = track_print"
| "track Forward = track_forward"
| "track Copy = track_copy"

text \<open>
  No handler catches an exception and the application installs no error handler, so a
  handler that throws is answered by the default error handler of Express: status 500.
\<close>

definition http_response :: "outcome \<Rightarrow> response" where
  "http_response out =
     (case out of
        Responded r \<Rightarrow> r
      | Threw x \<Rightarrow>
          \<lparr>rs_status = 500,
           rs_headers = [(''Content-Type'', ''text/html; charset=utf-8'')],
           rs_body = Error_Page\<rparr>)"

subsection \<open>The query endpoints and the dashboard connection\<close>

text \<open>
  \<open>ORDER BY key DESC\<close>. The ordered columns hold times as text of one fixed layout
  (\<open>toISOString\<close> for years 0 to 9999, \<open>CURRENT_TIMESTAMP\<close>), which orders as the
  times do; SQLite leaves the order of rows with equal keys open, the model keeps
  insertion order among them. The listings of alerts and incidents order times of the
  server's clock in this way.
\<close>

definition newest_first :: "('a \<Rightarrow> int) \<Rightarrow> 'a list \<Rightarrow> 'a list" where
  "newest_first key xs = sort_key (\<lambda>x. - key x) xs"

text \<open>
  The timestamp of an event can come from a pixel beacon's \<open>ts\<close> and lie in any year
  that a date can hold, and \<open>ORDER BY timestamp\<close> compares the ISO texts byte by
  byte. \<open>toISOString\<close> writes a year from 0 to 9999 with four digits, a later year as
  \<open>+\<close> and six digits, an earlier year as \<open>-\<close> and the six digits of its absolute
  value. So the texts of the years from 10000 on come first (\<open>+\<close> is below \<open>-\<close>
  and the digits), in the order of time; then the texts of the years before 0, a year
  nearer to 0 before a year farther from it, and in the order of time within one year;
  then the texts of the years 0 to 9999, in the order of time. \<open>iso_order\<close> is a key
  that orders time values as their texts are ordered.

  \<open>year_start y\<close> is the number of days from 1 January of a year divisible by 400 to
  1 January \<open>y\<close> years later, for \<open>y\<close> up to 400; 146097 days make 400 years;
  -62167219200000 is the first millisecond of the year 0 and 253402300800000 that of the
  year 10000.
\<close>

definition year_start :: "int \<Rightarrow> int" where
  "year_start y = 365 * y + (y + 3) div 4 - (y + 99) div 100 + (y + 399) div 400"

definition iso_order :: "int \<Rightarrow> nat \<times> int \<times> int" where
  "iso_order t =
     (if 253402300800000 \<le> t then (0, t, 0)
      else if t < - 62167219200000 then
        (let day = (t + 62167219200000) div 86400000;
             era = day div 146097;
             doe = day mod 146097;
             yoe = int (length (filter (\<lambda>y. year_start y \<le> doe) (map int [1..<400])));
             year = 400 * era + yoe
         in (1, - year,
             t + 62167219200000 - (era * 146097 + year_start yoe) * 86400000))
      else (2, t, 0))"

text \<open>\<open>ORDER BY timestamp DESC\<close> on events; rows with one timestamp keep their order.\<close>

definition events_newest_first :: "event list \<Rightarrow> event list" where
  "events_newest_first es = rev (sort_key (\<lambda>e. iso_order (ev_timestamp e)) (rev es))"

text \<open>\<open>GET /api/alerts\<close>: \<open>totalAlerts\<close> and \<open>alerts\<close>.\<close>

definition list_alerts :: "state \<Rightarrow> nat \<times> alert_row list" where
  "list_alerts s =
     (let alerts = take 100 (newest_first row_createdAt (db_alerts s));
          totalAlerts = length (db_alerts s)
      in (totalAlerts, alerts))"

text \<open>\<open>GET /api/incidents\<close>: \<open>totalIncidents\<close> and \<open>incidents\<close>.\<close>

definition list_incidents :: "state \<Rightarrow> nat \<times> incident list" where
  "list_incidents s =
     (let incidents = newest_first inc_timestamp (db_incidents s);
          totalIncidents = length (db_incidents s)
      in (totalIncidents, incidents))"

record summary =
  sm_totalEvents :: nat
  sm_opens :: nat
  sm_downloads :: nat
  sm_prints :: nat
  sm_forwards :: nat
  sm_copies :: nat
  sm_locations :: "string option list"
  sm_devices :: "string option list"

text \<open>\<open>GET /api/documents/:documentId/events\<close>\<close>

definition document_events :: "string \<Rightarrow> state \<Rightarrow> event list \<times> summary" where
  "document_events documentId s =
     (let events =
            take 100 (events_newest_first
              (filter (\<lambda>e. ev_documentId e = Some documentId) (db_events s)));
          count = (\<lambda>t. length (filter (\<lambda>e. ev_type e = t) events))
      in (events,
          \<lparr>sm_totalEvents = length events,
           sm_opens = count ''document_opened'',
           sm_downloads = count ''document_downloaded'',
           sm_prints = count ''document_printed'',
           sm_forwards = count ''document_forwarded'',
           sm_copies = count ''copy_attempt'',
           sm_locations = uniq (filter truthy (map ev_location events)),
           sm_devices = uniq (filter truthy (map ev_device events))\<rparr>))"

text \<open>\<open>GET /api/recipients/:recipientId/events\<close>: the events and the suspicious ones.\<close>

definition recipient_events :: "string \<Rightarrow> state \<Rightarrow> event list \<times> event list" where
  "recipient_events recipientId s =
     (let events =
            take 50 (events_newest_first
              (filter (\<lambda>e. ev_recipientId e = Some recipientId) (db_events s)));
          suspiciousEvents =
            filter (\<lambda>e. ev_risk e = Some ''high'' \<or> ev_risk e = Some ''critical'') events
      in (events, suspiciousEvents))"

record tracking_summary =
  ts_totalEvents :: nat
  ts_incidents :: nat
  ts_riskLevel :: string
  ts_lastActivity :: "int option"
  ts_recipients :: "string option list"
  ts_locations :: "string option list"
  ts_timeline :: "event list"

text \<open>\<open>GET /api/documents/:documentId/tracking-summary\<close>\<close>

definition tracking_summary_of :: "string \<Rightarrow> state \<Rightarrow> tracking_summary" where
  "tracking_summary_of documentId s =
     (let events =
            events_newest_first
              (filter (\<lambda>e. ev_documentId e = Some documentId) (db_events s));
          incidents =
            newest_first inc_timestamp
              (filter (\<lambda>i. inc_documentId i = Some documentId) (db_incidents s))
      in \<lparr>ts_totalEvents = length events,
          ts_incidents = length incidents,
          ts_riskLevel = (if length incidents > 0 then ''CRITICAL'' else ''MEDIUM''),
          ts_lastActivity =
            (case events of [] \<Rightarrow> None | e # _ \<Rightarrow> Some (ev_timestamp e)),
          ts_recipients = uniq (filter truthy (map ev_recipientId events)),
          ts_locations = uniq (filter truthy (map ev_location events)),
          ts_timeline = take 50 events\<rparr>)"

text \<open>\<open>GET /api/health\<close>: the three counts and the number of dashboards.\<close>

definition health :: "state \<Rightarrow> nat \<times> nat \<times> nat \<times> nat" where
  "health s =
     (length (db_events s), length (db_alerts s), length (db_incidents s),
      length (clients s))"

text \<open>
  A dashboard connects: it joins the set of clients and is sent the counts and the 20
  newest events. It leaves the set when its socket closes or fails.
\<close>

definition connection :: "nat \<Rightarrow> state \<Rightarrow> state" where
  "connection ws s =
     (let s1 = s\<lparr>clients := (if ws \<in> set (clients s) then clients s else clients s @ [ws])\<rparr>;
          recentEvents = take 20 (events_newest_first (db_events s1));
          totalEvents = length (db_events s1);
          totalAlerts = length (db_alerts s1);
          totalIncidents = length (db_incidents s1)
      in s1\<lparr>trace := trace s1
            @ [Sent_To ws (CONNECTED totalEvents totalAlerts totalIncidents recentEvents)]\<rparr>)"

definition closed :: "nat \<Rightarrow> state \<Rightarrow> state" where
  "closed ws s = s\<lparr>clients := removeAll ws (clients s)\<rparr>"

subsection \<open>Runs of the server\<close>

text \<open>
  What the server does, one operation at a time: a tracking request, a query (the six GET
  handlers above run SELECT statements only, so they hand the state back as it is), a
  dashboard connecting or leaving. \<open>GET /api/emails\<close> is a SELECT over the
  table of sent mails, which the mail sender owns; it is left out.
\<close>

datatype query =
    Document_Events string
  | Recipient_Events string
  | Tracking_Summary string
  | Alerts
  | Incidents
  | Health

datatype reply =
    Events_Reply "event list" summary
  | Recipient_Reply "event list" "event list"
  | Summary_Reply tracking_summary
  | Alerts_Reply nat "alert_row list"
  | Incidents_Reply nat "incident list"
  | Health_Reply nat nat nat nat

fun answer :: "query \<Rightarrow> state \<Rightarrow> reply \<times> state" where
  "answer (Document_Events documentId) s =
     (case document_events documentId s of (events, summary) \<Rightarrow> Events_Reply events summary, s)"
| "answer (Recipient_Events recipientId) s =
     (case recipient_events recipientId s of
        (events, suspicious) \<Rightarrow> Recipient_Reply events suspicious, s)"
| "answer (Tracking_Summary documentId) s = (Summary_Reply (tracking_summary_of documentId s), s)"
| "answer Alerts s =
     (case list_alerts s of (totalAlerts, alerts) \<Rightarrow> Alerts_Reply totalAlerts alerts, s)"
| "answer Incidents s =
     (case list_incidents s of
        (totalIncidents, incidents) \<Rightarrow> Incidents_Reply totalIncidents incidents, s)"
| "answer Health s =
     (case health s of
        (totalEvents, totalAlerts, totalIncidents, connectedAdmins) \<Rightarrow>
          Health_Reply totalEvents totalAlerts totalIncidents connectedAdmins, s)"

datatype operation =
    Track route request env
  | Query query
  | Connect nat
  | Close nat

fun step :: "operation \<Rightarrow> state \<Rightarrow> state" where
  "step (Track r rq env) s = snd (track r rq env s)"
| "step (Query q) s = snd (answer q s)"
| "step (Connect ws) s = connection ws s"
| "step (Close ws) s = closed ws s"

fun run :: "operation list \<Rightarrow> state \<Rightarrow> state" where
  "run [] s = s"
| "run (op # ops) s = run ops (step op s)"

subsection \<open>Notions the properties are stated with\<close>

text \<open>The event type each tracking endpoint writes.\<close>

fun type_of_route :: "route \<Rightarrow> string" where
  "type_of_route Pixel = ''pixel_beacon''"
| "type_of_route Document_Open = ''document_opened''"
| "type_of_route Page_View = ''page_viewed''"
| "type_of_route Download = ''document_downloaded''"
| "type_of_route Print = ''document_printed''"
| "type_of_route Forward = ''document_forwarded''"
| "type_of_route Copy = ''copy_attempt''"

text \<open>
  The risk table as the specification words it, by event type. The tier \<open>none\<close> is the
  NULL that the \<open>risk\<close> column holds for an event stored without a risk.
\<close>

definition spec_risk_tier :: "string \<Rightarrow> string option" where
  "spec_risk_tier t =
     (if t = ''document_opened'' then Some ''low''
      else if t = ''copy_attempt'' then Some ''medium''
      else if t = ''document_downloaded'' then Some ''high''
      else if t = ''document_printed'' then Some ''critical''
      else if t = ''document_forwarded'' then Some ''critical''
      else None)"

text \<open>The anomaly evaluations of a trace, oldest first, each with its anomalies.\<close>

fun evaluations :: "action list \<Rightarrow> finding list list" where
  "evaluations [] = []"
| "evaluations (Evaluated fs # tr) = fs # evaluations tr"
| "evaluations (Broadcast m # tr) = evaluations tr"
| "evaluations (Sent_To ws m # tr) = evaluations tr"

text \<open>A response that blames the client: a status from 400 to 499.\<close>

definition client_error :: "response \<Rightarrow> bool" where
  "client_error r = (400 \<le> rs_status r \<and> rs_status r < 500)"

text \<open>
  The specification's window for rapid access, as worded: the events stamped within the
  60 seconds that end at the evaluation time.
\<close>

definition spec_trailing_minute :: "int \<Rightarrow> event list \<Rightarrow> event list" where
  "spec_trailing_minute now es =
     filter (\<lambda>e. now - 60000 \<le> ev_timestamp e \<and> ev_timestamp e \<le> now) es"

text \<open>
  How one request may change the events table: not at all, or by one row at the end, of
  the type of the endpoint and with the risk of that type.
\<close>

definition new_event :: "route \<Rightarrow> event list \<Rightarrow> event list \<Rightarrow> bool" where
  "new_event r old new =
     (new = old \<or>
      new = old @ [last new] \<and> ev_type (last new) = type_of_route r
        \<and> ev_risk (last new) = spec_risk_tier (type_of_route r))"

text \<open>
  A request has stored its event: the table has grown by one row at the end, of the type
  of the endpoint and with the risk of that type.
\<close>

definition stored :: "route \<Rightarrow> event list \<Rightarrow> event list \<Rightarrow> bool" where
  "stored r old new =
     (new = old @ [last new] \<and> ev_type (last new) = type_of_route r
        \<and> ev_risk (last new) = spec_risk_tier (type_of_route r))"

subsection \<open>Example requests and states\<close>

definition example_geoip :: "string \<Rightarrow> geo_result" where
  "example_geoip ip =
     (if ip = ''10.0.0.1'' then Geo_Found ''Paris'' ''FR''
      else if ip = ''10.0.0.2'' then Geo_Found ''Berlin'' ''DE''
      else if ip = ''10.0.0.3'' then Geo_Found ''Madrid'' ''ES''
      else if ip = ''10.0.0.4'' then Geo_Found ''Rome'' ''IT''
      else if ip = ''10.0.0.5'' then Geo_Found ''Oslo'' ''NO''
      else Geo_Null)"

text \<open>
  An environment whose identifiers end in \<open>tag\<close> and whose clock reads \<open>t\<close> throughout
  the request; the host's time zone is UTC.
\<close>

definition example_env :: "string \<Rightarrow> int \<Rightarrow> env" where
  "example_env tag t =
     \<lparr>uuid_event = ''e'' @ tag, uuid_alert = ''a'' @ tag, uuid_incident = ''i'' @ tag,
      uuid_default = ''d'' @ tag,
      clock_event = t, clock_incident = t, clock_check = t, clock_db = t div 1000,
      local_hour = (\<lambda>t. nat ((t div 3600000) mod 24)),
      geoip_lookup = example_geoip\<rparr>"

text \<open>A request of recipient \<open>rcp1\<close> for document \<open>doc1\<close> from the address \<open>ip\<close>.\<close>

definition example_request :: "string \<Rightarrow> request" where
  "example_request ip =
     \<lparr>rq_documentId = Some ''doc1'', rq_recipientId = Some ''rcp1'',
      rq_watermarkId = None, rq_pageNumber = None, rq_timeSpent = None,
      rq_forwardedTo = None, rq_action = None, rq_ts = None,
      rq_forwarded_for = None, rq_remoteAddress = Some ip,
      rq_user_agent = Some ''Firefox''\<rparr>"

definition empty_state :: state where
  "empty_state =
     \<lparr>db_events = [], db_alerts = [], db_incidents = [], clients = [], trace = []\<rparr>"

text \<open>The recipient opens the document from four places, an hour apart (06:00 to 09:00).\<close>

definition four_places :: "operation list" where
  "four_places =
     [Track Document_Open (example_request ''10.0.0.1'') (example_env ''1'' 1700028000000),
      Track Document_Open (example_request ''10.0.0.2'') (example_env ''2'' 1700031600000),
      Track Document_Open (example_request ''10.0.0.3'') (example_env ''3'' 1700035200000),
      Track Document_Open (example_request ''10.0.0.4'') (example_env ''4'' 1700038800000)]"

text \<open>Then, at 10:00, from a fifth place.\<close>

definition fifth_place :: operation where
  "fifth_place =
     Track Document_Open (example_request ''10.0.0.5'') (example_env ''5'' 1700042400000)"

text \<open>A pixel beacon whose \<open>ts\<close> is the first instant of the year 2100.\<close>

definition future_beacon :: "string \<Rightarrow> operation" where
  "future_beacon tag =
     Track Pixel ((example_request ''10.0.0.1'')\<lparr>rq_ts := Some ''4102444800000''\<rparr>)
       (example_env tag 1700028000000)"

definition six_future_beacons :: "operation list" where
  "six_future_beacons =
     [future_beacon ''1'', future_beacon ''2'', future_beacon ''3'',
      future_beacon ''4'', future_beacon ''5'', future_beacon ''6'']"

definition open_after_beacons :: operation where
  "open_after_beacons =
     Track Document_Open (example_request ''10.0.0.1'') (example_env ''7'' 1700042400000)"

text \<open>The row such a beacon stores.\<close>

definition beacon_event :: "string \<Rightarrow> event" where
  "beacon_event tag =
     \<lparr>ev_id = ''e'' @ tag, ev_type = ''pixel_beacon'', ev_documentId = Some ''doc1'',
      ev_recipientId = Some ''rcp1'', ev_action = Some ''viewed'', ev_pageNumber = None,
      ev_timeSpent = None, ev_timestamp = 4102444800000, ev_ipAddress = Some ''10.0.0.1'',
      ev_location = Some ''Paris, FR'', ev_device = Some ''Firefox'',
      ev_userAgent = Some ''Firefox'', ev_risk = None, ev_watermarkId = None,
      ev_forwardedTo = None, ev_unauthorized = False\<rparr>"

text \<open>A forward report, and one whose \<open>recipientId\<close> is the empty string.\<close>

definition forward_request :: request where
  "forward_request = (example_request ''10.0.0.1'')\<lparr>rq_forwardedTo := Some ''ext@x.com''\<rparr>"

definition forward_empty_recipient :: request where
  "forward_empty_recipient = forward_request\<lparr>rq_recipientId := Some []\<rparr>"

text \<open>A report with no \<open>recipientId\<close>.\<close>

definition request_without_recipient :: request where
  "request_without_recipient = (example_request ''10.0.0.1'')\<lparr>rq_recipientId := None\<rparr>"

text \<open>A pixel request whose \<open>ts\<close> is one millisecond past the last time value.\<close>

definition pixel_late_ts :: request where
  "pixel_late_ts = (example_request ''10.0.0.1'')\<lparr>rq_ts := Some ''8640000000000001''\<rparr>"

text \<open>Pixel requests with an ordinary \<open>ts\<close> and with \<open>ts=0\<close>.\<close>

definition pixel_with_ts :: request where
  "pixel_with_ts = (example_request ''10.0.0.1'')\<lparr>rq_ts := Some ''1700000000123''\<rparr>"

definition pixel_zero_ts :: request where
  "pixel_zero_ts = (example_request ''10.0.0.1'')\<lparr>rq_ts := Some ''0''\<rparr>"

text \<open>A store that holds 101 incidents.\<close>

definition example_incident :: "nat \<Rightarrow> incident" where
  "example_incident n =
     \<lparr>inc_id = ''i'' @ show_nat n, inc_type = ''UNAUTHORIZED_FORWARDING'',
      inc_severity = ''CRITICAL'', inc_documentId = Some ''doc1'',
      inc_fromRecipient = Some ''rcp1'', inc_toRecipient = Some ''ext@x.com'',
      inc_status = ''open'', inc_timestamp = 1700028000000 + int n\<rparr>"

definition many_incidents :: state where
  "many_incidents = empty_state\<lparr>db_incidents := map example_incident [0..<101]\<rparr>"

section \<open>Properties\<close>

subsection \<open>What the INSERT statements and the handlers change\<close>

lemma saveEvent_Inr:
  assumes "saveEvent env e s = Inr (r, s')"
  shows "s' = s\<lparr>db_events := db_events s @ [r]\<rparr>
    \<and> ev_type r = ev_type e
    \<and> ev_risk r = or_null (ev_risk e)
    \<and> ev_documentId r = ev_documentId e
    \<and> ev_recipientId r = ev_recipientId e
    \<and> ev_location r = or_null (ev_location e)
    \<and> ev_timestamp r = ev_timestamp e
    \<and> ev_forwardedTo r = or_null (ev_forwardedTo e)
    \<and> ev_id r = or_text (Some (ev_id e)) (uuid_default env)
    \<and> ev_documentId e \<noteq> None
    \<and> ev_recipientId e \<noteq> None"
  using assms
  by (auto simp: saveEvent_def insertEvent_def Let_def split: if_splits)

lemma saveAlert_Inr:
  assumes "saveAlert env a s = Inr (r, s')"
  shows "s' = s\<lparr>db_alerts := db_alerts s @ [\<lparr>row_alert = r, row_createdAt = clock_db env\<rparr>]\<rparr>
    \<and> al_type r = al_type a
    \<and> al_severity r = al_severity a
    \<and> al_requiresAction r = al_requiresAction a"
  using assms
  by (auto simp: saveAlert_def insertAlert_def Let_def split: if_splits)

lemma saveIncident_Inr:
  assumes "saveIncident env i s = Inr (r, s')"
  shows "s' = s\<lparr>db_incidents := db_incidents s @ [r]\<rparr>
    \<and> inc_type r = inc_type i
    \<and> inc_severity r = inc_severity i
    \<and> inc_fromRecipient r = or_null (inc_fromRecipient i)
    \<and> inc_toRecipient r = or_null (inc_toRecipient i)"
  using assms
  by (auto simp: saveIncident_def insertIncident_def Let_def split: if_splits)

lemma broadcast_tables [simp]:
  "db_events (broadcastToAdmins m s) = db_events s"
  "db_alerts (broadcastToAdmins m s) = db_alerts s"
  "db_incidents (broadcastToAdmins m s) = db_incidents s"
  "clients (broadcastToAdmins m s) = clients s"
  "trace (broadcastToAdmins m s) = trace s @ [Broadcast m]"
  by (simp_all add: broadcastToAdmins_def)

lemma check_tables [simp]:
  "db_events (checkForAnomalies env e r s) = db_events s"
  "db_alerts (checkForAnomalies env e r s) = db_alerts s"
  "db_incidents (checkForAnomalies env e r s) = db_incidents s"
  "clients (checkForAnomalies env e r s) = clients s"
  by (simp_all add: checkForAnomalies_def Let_def)

lemma or_null_simps [simp]:
  "or_null (Some (c # cs)) = Some (c # cs)"
  "or_null None = None"
  "or_null (Some []) = None"
  by (simp_all add: or_null_def or_else_def truthy_def)

lemmas handler_simps = Let_def new_event_def spec_risk_tier_def literal_def

lemma pixel_events: "new_event Pixel (db_events s) (db_events (snd (track_pixel rq env s)))"
  by (auto simp: track_pixel_def handler_simps split: sum.splits dest!: saveEvent_Inr)

lemma document_open_events:
  "new_event Document_Open (db_events s) (db_events (snd (track_document_open rq env s)))"
  by (auto simp: track_document_open_def handler_simps split: sum.splits dest!: saveEvent_Inr)

lemma page_view_events:
  "new_event Page_View (db_events s) (db_events (snd (track_page_view rq env s)))"
  by (auto simp: track_page_view_def handler_simps split: sum.splits dest!: saveEvent_Inr)

lemma download_events:
  "new_event Download (db_events s) (db_events (snd (track_download rq env s)))"
  by (auto simp: track_download_def handler_simps split: sum.splits
      dest!: saveEvent_Inr saveAlert_Inr)

lemma print_events:
  "new_event Print (db_events s) (db_events (snd (track_print rq env s)))"
  by (auto simp: track_print_def handler_simps split: sum.splits
      dest!: saveEvent_Inr saveAlert_Inr)

lemma forward_events:
  "new_event Forward (db_events s) (db_events (snd (track_forward rq env s)))"
  by (auto simp: track_forward_def handler_simps split: sum.splits
      dest!: saveEvent_Inr saveAlert_Inr saveIncident_Inr)

lemma copy_events:
  "new_event Copy (db_events s) (db_events (snd (track_copy rq env s)))"
  by (auto simp: track_copy_def handler_simps split: sum.splits dest!: saveEvent_Inr)

lemma track_events: "new_event r (db_events s) (db_events (snd (track r rq env s)))"
  by (cases r)
    (simp_all add: pixel_events document_open_events page_view_events download_events
      print_events forward_events copy_events)

text \<open>Evaluating the handlers on the example requests.\<close>

lemmas eval_defs =
  track_pixel_def track_document_open_def track_page_view_def track_download_def
  track_print_def track_forward_def track_copy_def
  saveEvent_def insertEvent_def saveAlert_def insertAlert_def saveIncident_def
  insertIncident_def getClientIP_def getLocationFromIP_def parseBrowserInfo_def
  or_text_def or_else_def or_null_def truthy_def template_def literal_def
  broadcastToAdmins_def checkForAnomalies_def events_of_recipient_def anomalies_of_def
  uniq_def res_json_def toISOString_def number_or_def parseInt_def parse_unsigned_def
  parse_digits_def digit_value_def is_space_def http_response_def Let_def
  example_geoip_def example_env_def example_request_def empty_state_def

lemma parseInt_examples:
  "parseInt None = None"
  "parseInt (Some []) = None"
  "parseInt (Some ''abc'') = None"
  "parseInt (Some ''0'') = Some 0"
  "parseInt (Some ''-0'') = Some 0"
  "parseInt (Some ''1700000000123'') = Some 1700000000123"
  "parseInt (Some '' 42px'') = Some 42"
  "parseInt (Some ''0x10'') = Some 16"
  by (simp_all add: parseInt_def parse_unsigned_def parse_digits_def digit_value_def
      is_space_def template_def Let_def)

subsection \<open>The events table is append-only\<close>

lemma new_event_prefix: "new_event r old new \<Longrightarrow> prefix old new"
  by (auto simp: new_event_def prefix_def)

lemma step_events: "prefix (db_events s) (db_events (step op s))"
proof (cases op)
  case (Track r rq env)
  then show ?thesis using new_event_prefix [OF track_events] by simp
next
  case (Query q)
  then show ?thesis by (cases q) simp_all
next
  case (Connect ws)
  then show ?thesis by (simp add: connection_def Let_def)
next
  case (Close ws)
  then show ?thesis by (simp add: closed_def)
qed

lemma run_events: "prefix (db_events s) (db_events (run ops s))"
proof (induction ops arbitrary: s)
  case Nil
  show ?case by simp
next
  case (Cons op ops)
  have "prefix (db_events s) (db_events (step op s))" by (rule step_events)
  also have "prefix (db_events (step op s)) (db_events (run ops (step op s)))" by (rule Cons.IH)
  finally show ?case by simp
qed

lemma run_append: "run (ops @ later) s = run later (run ops s)"
  by (induction ops arbitrary: s) simp_all

text \<open>
  Claim C9. Whatever operations the server runs (tracking requests, with the anomaly
  evaluation the document-open handler makes, queries, dashboards connecting and
  leaving), the events table only grows at its end: the table after any run is a prefix
  of the table after any longer run, so no stored event is ever changed or removed.
\<close>

theorem events_append_only:
  "prefix (db_events (run ops s)) (db_events (run (ops @ later) s))"
  unfolding run_append by (rule run_events)

subsection \<open>The risk of a stored event\<close>

text \<open>
  A report with both identifiers and a new id stores its event, whatever becomes of the
  alert or the incident afterwards; a pixel request needs a time value within the range
  of dates as well.
\<close>

lemma copy_stores:
  assumes "rq_documentId rq \<noteq> None" and "rq_recipientId rq \<noteq> None"
    and "or_text (Some (uuid_event env)) (uuid_default env) \<notin> set (map ev_id (db_events s))"
  shows "stored Copy (db_events s) (db_events (snd (track_copy rq env s)))"
  using assms
  by (simp add: track_copy_def saveEvent_def insertEvent_def stored_def handler_simps)

lemma page_view_stores:
  assumes "rq_documentId rq \<noteq> None" and "rq_recipientId rq \<noteq> None"
    and "or_text (Some (uuid_event env)) (uuid_default env) \<notin> set (map ev_id (db_events s))"
  shows "stored Page_View (db_events s) (db_events (snd (track_page_view rq env s)))"
  using assms
  by (simp add: track_page_view_def saveEvent_def insertEvent_def stored_def handler_simps)

lemma document_open_stores:
  assumes "rq_documentId rq \<noteq> None" and "rq_recipientId rq \<noteq> None"
    and "or_text (Some (uuid_event env)) (uuid_default env) \<notin> set (map ev_id (db_events s))"
  shows "stored Document_Open (db_events s) (db_events (snd (track_document_open rq env s)))"
  using assms
  by (simp add: track_document_open_def saveEvent_def insertEvent_def stored_def handler_simps)

lemma pixel_stores:
  assumes "rq_documentId rq \<noteq> None" and "rq_recipientId rq \<noteq> None"
    and "or_text (Some (uuid_event env)) (uuid_default env) \<notin> set (map ev_id (db_events s))"
    and "\<bar>number_or (parseInt (rq_ts rq)) (clock_event env)\<bar> \<le> 8640000000000000"
  shows "stored Pixel (db_events s) (db_events (snd (track_pixel rq env s)))"
  using assms
  by (simp add: track_pixel_def toISOString_def saveEvent_def insertEvent_def stored_def
      handler_simps)

lemma download_stores:
  assumes "rq_documentId rq \<noteq> None" and "rq_recipientId rq \<noteq> None"
    and "or_text (Some (uuid_event env)) (uuid_default env) \<notin> set (map ev_id (db_events s))"
  shows "stored Download (db_events s) (db_events (snd (track_download rq env s)))"
  using assms
  by (auto simp: track_download_def saveEvent_def insertEvent_def stored_def handler_simps
      split: sum.splits dest!: saveAlert_Inr)

lemma print_stores:
  assumes "rq_documentId rq \<noteq> None" and "rq_recipientId rq \<noteq> None"
    and "or_text (Some (uuid_event env)) (uuid_default env) \<notin> set (map ev_id (db_events s))"
  shows "stored Print (db_events s) (db_events (snd (track_print rq env s)))"
  using assms
  by (auto simp: track_print_def saveEvent_def insertEvent_def stored_def handler_simps
      split: sum.splits dest!: saveAlert_Inr)

lemma forward_stores:
  assumes "rq_documentId rq \<noteq> None" and "rq_recipientId rq \<noteq> None"
    and "or_text (Some (uuid_event env)) (uuid_default env) \<notin> set (map ev_id (db_events s))"
  shows "stored Forward (db_events s) (db_events (snd (track_forward rq env s)))"
  using assms
  by (auto simp: track_forward_def saveEvent_def insertEvent_def stored_def handler_simps
      split: sum.splits dest!: saveAlert_Inr saveIncident_Inr)

lemma track_stores:
  assumes "rq_documentId rq \<noteq> None" and "rq_recipientId rq \<noteq> None"
    and "or_text (Some (uuid_event env)) (uuid_default env) \<notin> set (map ev_id (db_events s))"
    and "r = Pixel \<longrightarrow> \<bar>number_or (parseInt (rq_ts rq)) (clock_event env)\<bar> \<le> 8640000000000000"
  shows "stored r (db_events s) (db_events (snd (track r rq env s)))"
  using assms
  by (cases r)
    (simp_all add: pixel_stores document_open_stores page_view_stores download_stores
      print_stores forward_stores copy_stores)


text \<open>
  Claim C4. For every endpoint, request, environment and store: an event that the
  request adds to the events table has the type of its endpoint and the risk that the
  table of the specification gives for that type; and a request with both identifiers
  and a new id (for the pixel endpoint also a time value within the range of dates) does
  add exactly one such event. The table: low for document_opened, medium for
  copy_attempt, high for document_downloaded, critical for document_printed and
  document_forwarded, none (NULL) for pixel_beacon and page_viewed. Nothing but the type
  decides the risk.
\<close>

theorem risk_by_type:
  assumes "track r rq env s = (out, s')"
  shows "(e \<in> set (db_events s') \<and> e \<notin> set (db_events s)
          \<longrightarrow> ev_type e = type_of_route r \<and> ev_risk e = spec_risk_tier (ev_type e))
    \<and> (rq_documentId rq \<noteq> None \<and> rq_recipientId rq \<noteq> None
        \<and> or_text (Some (uuid_event env)) (uuid_default env) \<notin> set (map ev_id (db_events s))
        \<and> (r = Pixel \<longrightarrow>
              \<bar>number_or (parseInt (rq_ts rq)) (clock_event env)\<bar> \<le> 8640000000000000)
          \<longrightarrow> (\<exists>e. db_events s' = db_events s @ [e] \<and> ev_type e = type_of_route r
                 \<and> ev_risk e = spec_risk_tier (type_of_route r)))"
proof (intro conjI impI)
  assume a: "e \<in> set (db_events s') \<and> e \<notin> set (db_events s)"
  have n: "new_event r (db_events s) (db_events s')"
    using track_events [of r s rq env] assms by simp
  from n a have "db_events s' = db_events s @ [last (db_events s')]"
    and l: "ev_type (last (db_events s')) = type_of_route r"
      "ev_risk (last (db_events s')) = spec_risk_tier (type_of_route r)"
    by (auto simp: new_event_def)
  then have "set (db_events s') = insert (last (db_events s')) (set (db_events s))"
    by (metis Un_insert_right append_Nil2 list.simps(15) set_append)
  with a have "e = last (db_events s')" by auto
  with l show "ev_type e = type_of_route r" and "ev_risk e = spec_risk_tier (ev_type e)"
    by simp_all
next
  assume b: "rq_documentId rq \<noteq> None \<and> rq_recipientId rq \<noteq> None
        \<and> or_text (Some (uuid_event env)) (uuid_default env) \<notin> set (map ev_id (db_events s))
        \<and> (r = Pixel \<longrightarrow>
              \<bar>number_or (parseInt (rq_ts rq)) (clock_event env)\<bar> \<le> 8640000000000000)"
  then have "stored r (db_events s) (db_events (snd (track r rq env s)))"
    by (intro track_stores) simp_all
  then have "stored r (db_events s) (db_events s')" using assms by simp
  then show "\<exists>e. db_events s' = db_events s @ [e] \<and> ev_type e = type_of_route r
                 \<and> ev_risk e = spec_risk_tier (type_of_route r)"
    unfolding stored_def by blast
qed

text \<open>
  One request to each of the seven endpoints, on the empty store: each stores one event,
  of its type and with the risk of the table.
\<close>

theorem risk_by_type_witness:
  "map ev_type (db_events (snd (track Pixel (example_request ''10.0.0.1'')
        (example_env ''1'' 1700028000000) empty_state))) = [''pixel_beacon'']
   \<and> map ev_risk (db_events (snd (track Pixel (example_request ''10.0.0.1'')
        (example_env ''1'' 1700028000000) empty_state))) = [None]
   \<and> map ev_type (db_events (snd (track Document_Open (example_request ''10.0.0.1'')
        (example_env ''1'' 1700028000000) empty_state))) = [''document_opened'']
   \<and> map ev_risk (db_events (snd (track Document_Open (example_request ''10.0.0.1'')
        (example_env ''1'' 1700028000000) empty_state))) = [Some ''low'']
   \<and> map ev_type (db_events (snd (track Page_View (example_request ''10.0.0.1'')
        (example_env ''1'' 1700028000000) empty_state))) = [''page_viewed'']
   \<and> map ev_risk (db_events (snd (track Page_View (example_request ''10.0.0.1'')
        (example_env ''1'' 1700028000000) empty_state))) = [None]
   \<and> map ev_type (db_events (snd (track Download (example_request ''10.0.0.1'')
        (example_env ''1'' 1700028000000) empty_state))) = [''document_downloaded'']
   \<and> map ev_risk (db_events (snd (track Download (example_request ''10.0.0.1'')
        (example_env ''1'' 1700028000000) empty_state))) = [Some ''high'']
   \<and> map ev_type (db_events (snd (track Print (example_request ''10.0.0.1'')
        (example_env ''1'' 1700028000000) empty_state))) = [''document_printed'']
   \<and> map ev_risk (db_events (snd (track Print (example_request ''10.0.0.1'')
        (example_env ''1'' 1700028000000) empty_state))) = [Some ''critical'']
   \<and> map ev_type (db_events (snd (track Forward (example_request ''10.0.0.1'')
        (example_env ''1'' 1700028000000) empty_state))) = [''document_forwarded'']
   \<and> map ev_risk (db_events (snd (track Forward (example_request ''10.0.0.1'')
        (example_env ''1'' 1700028000000) empty_state))) = [Some ''critical'']
   \<and> map ev_type (db_events (snd (track Copy (example_request ''10.0.0.1'')
        (example_env ''1'' 1700028000000) empty_state))) = [''copy_attempt'']
   \<and> map ev_risk (db_events (snd (track Copy (example_request ''10.0.0.1'')
        (example_env ''1'' 1700028000000) empty_state))) = [Some ''medium'']"
proof -
  let ?rq = "example_request ''10.0.0.1''"
  let ?env = "example_env ''1'' 1700028000000"
  have d: "rq_documentId ?rq \<noteq> None \<and> rq_recipientId ?rq \<noteq> None"
    by (simp add: example_request_def)
  have f: "or_text (Some (uuid_event ?env)) (uuid_default ?env)
      \<notin> set (map ev_id (db_events empty_state))"
    by (simp add: empty_state_def)
  have p: "\<bar>number_or (parseInt (rq_ts ?rq)) (clock_event ?env)\<bar> \<le> 8640000000000000"
    by (simp add: example_request_def example_env_def parseInt_examples number_or_def)
  have g: "map ev_type (db_events (snd (track r ?rq ?env empty_state))) = [type_of_route r]
      \<and> map ev_risk (db_events (snd (track r ?rq ?env empty_state)))
          = [spec_risk_tier (type_of_route r)]" for r
  proof -
    have "track r ?rq ?env empty_state
        = (fst (track r ?rq ?env empty_state), snd (track r ?rq ?env empty_state))"
      by simp
    from risk_by_type [OF this] d f p
    obtain e where "db_events (snd (track r ?rq ?env empty_state)) = db_events empty_state @ [e]"
      and "ev_type e = type_of_route r" and "ev_risk e = spec_risk_tier (type_of_route r)"
      by blast
    then show ?thesis by (simp add: empty_state_def)
  qed
  show ?thesis
    using g [of Pixel] g [of Document_Open] g [of Page_View] g [of Download] g [of Print]
      g [of Forward] g [of Copy]
    by (simp add: spec_risk_tier_def)
qed

subsection \<open>When the anomaly evaluation runs\<close>

lemma evaluations_append [simp]: "evaluations (xs @ ys) = evaluations xs @ evaluations ys"
  by (induction xs rule: evaluations.induct) simp_all

lemma check_evaluations:
  "evaluations (trace (checkForAnomalies env e r s)) =
     evaluations (trace s)
       @ [anomalies_of (clock_check env) (local_hour env) e (events_of_recipient r s)]"
  by (simp add: checkForAnomalies_def Let_def)

lemma events_of_recipient_check [simp]:
  "events_of_recipient r (checkForAnomalies env e r' s) = events_of_recipient r s"
  by (simp add: events_of_recipient_def split: option.splits)

lemma events_of_recipient_broadcast [simp]:
  "events_of_recipient r (broadcastToAdmins m s) = events_of_recipient r s"
  by (simp add: events_of_recipient_def split: option.splits)

lemma document_open_evaluations:
  "evaluations (trace (snd (track_document_open rq env s))) =
     evaluations (trace s)
       @ (if db_events (snd (track_document_open rq env s)) \<noteq> db_events s
          then [anomalies_of (clock_check env) (local_hour env)
                  (last (db_events (snd (track_document_open rq env s))))
                  (events_of_recipient (rq_recipientId rq) (snd (track_document_open rq env s)))]
          else [])"
  by (auto simp: track_document_open_def Let_def check_evaluations
      split: sum.splits dest!: saveEvent_Inr)

lemma other_evaluations:
  "evaluations (trace (snd (track_pixel rq env s))) = evaluations (trace s)"
  "evaluations (trace (snd (track_page_view rq env s))) = evaluations (trace s)"
  "evaluations (trace (snd (track_download rq env s))) = evaluations (trace s)"
  "evaluations (trace (snd (track_print rq env s))) = evaluations (trace s)"
  "evaluations (trace (snd (track_forward rq env s))) = evaluations (trace s)"
  "evaluations (trace (snd (track_copy rq env s))) = evaluations (trace s)"
  by (auto simp: track_pixel_def track_page_view_def track_download_def track_print_def
      track_forward_def track_copy_def Let_def
      split: sum.splits dest!: saveEvent_Inr saveAlert_Inr saveIncident_Inr)

lemma track_evaluations:
  "evaluations (trace (snd (track r rq env s))) =
     evaluations (trace s)
       @ (if r = Document_Open \<and> db_events (snd (track r rq env s)) \<noteq> db_events s
          then [anomalies_of (clock_check env) (local_hour env)
                  (last (db_events (snd (track r rq env s))))
                  (events_of_recipient (rq_recipientId rq) (snd (track r rq env s)))]
          else [])"
proof (cases r)
  case Document_Open
  then show ?thesis using document_open_evaluations [of rq env s] by simp
qed (simp_all add: other_evaluations)

text \<open>
  Claim C3, as the code has it. A tracking request runs the anomaly evaluation exactly
  once when it is a document-open report whose event was stored, and then on the
  recipient's events as the store holds them after the insertion, the new event among
  them. A request of any other endpoint (pixel, page-view, download, print, forward,
  copy) runs no evaluation, and neither does a document-open report whose event was not
  stored.
\<close>

theorem evaluation_only_on_document_open:
  "evaluations (trace (snd (track r rq env s))) =
     evaluations (trace s)
       @ (if r = Document_Open \<and> db_events (snd (track r rq env s)) \<noteq> db_events s
          then [anomalies_of (clock_check env) (local_hour env)
                  (last (db_events (snd (track r rq env s))))
                  (events_of_recipient (rq_recipientId rq) (snd (track r rq env s)))]
          else [])"
proof (cases r)
  case Document_Open
  then show ?thesis using document_open_evaluations [of rq env s] by simp
next
  case Pixel
  then show ?thesis by (simp add: other_evaluations(1))
next
  case Page_View
  then show ?thesis by (simp add: other_evaluations(2))
next
  case Download
  then show ?thesis by (simp add: other_evaluations(3))
next
  case Print
  then show ?thesis by (simp add: other_evaluations(4))
next
  case Forward
  then show ?thesis by (simp add: other_evaluations(5))
next
  case Copy
  then show ?thesis by (simp add: other_evaluations(6))
qed

text \<open>
  The claim as stated fails on a download report: its event is stored and no anomaly
  evaluation runs.
\<close>

theorem download_is_not_evaluated:
  "map ev_type (db_events (snd (track Download (example_request ''10.0.0.1'')
        (example_env ''1'' 1700028000000) empty_state))) = [''document_downloaded'']
   \<and> evaluations (trace (snd (track Download (example_request ''10.0.0.1'')
        (example_env ''1'' 1700028000000) empty_state))) = []"
  by (simp add: eval_defs)

subsection \<open>What a forward report creates\<close>

lemma forward_shape:
  assumes "track_forward rq env s = (Responded resp, s')"
  shows "db_events s' = db_events s @ [last (db_events s')]
    \<and> db_incidents s' = db_incidents s @ [last (db_incidents s')]
    \<and> db_alerts s' = db_alerts s
         @ [\<lparr>row_alert = row_alert (last (db_alerts s')), row_createdAt = clock_db env\<rparr>]
    \<and> ev_type (last (db_events s')) = ''document_forwarded''
    \<and> ev_recipientId (last (db_events s')) = rq_recipientId rq
    \<and> ev_forwardedTo (last (db_events s')) = or_null (rq_forwardedTo rq)
    \<and> inc_type (last (db_incidents s')) = ''UNAUTHORIZED_FORWARDING''
    \<and> inc_severity (last (db_incidents s')) = ''CRITICAL''
    \<and> inc_fromRecipient (last (db_incidents s')) = or_null (rq_recipientId rq)
    \<and> inc_toRecipient (last (db_incidents s')) = or_null (rq_forwardedTo rq)
    \<and> al_type (row_alert (last (db_alerts s'))) = ''UNAUTHORIZED_SHARE''
    \<and> al_severity (row_alert (last (db_alerts s'))) = ''critical''
    \<and> al_requiresAction (row_alert (last (db_alerts s')))"
  using assms
  by (auto simp: track_forward_def Let_def
      split: sum.splits dest!: saveEvent_Inr saveAlert_Inr saveIncident_Inr)

text \<open>
  Claim C2, as the code has it. A forward report that is answered with success has added
  exactly one event (document_forwarded), exactly one incident of type
  UNAUTHORIZED_FORWARDING and exactly one alert of type UNAUTHORIZED_SHARE, severity
  critical, requiring action. The incident's \<open>toRecipient\<close> is the event's
  \<open>forwardedTo\<close>. The incident's \<open>fromRecipient\<close> is the event's \<open>recipientId\<close>,
  except that an empty \<open>recipientId\<close> is stored as NULL on the incident.
\<close>

theorem forward_creates_incident_and_alert:
  assumes "track Forward rq env s = (Responded resp, s')"
  shows "\<exists>e i a.
      db_events s' = db_events s @ [e]
    \<and> db_incidents s' = db_incidents s @ [i]
    \<and> db_alerts s' = db_alerts s @ [\<lparr>row_alert = a, row_createdAt = clock_db env\<rparr>]
    \<and> ev_type e = ''document_forwarded''
    \<and> inc_type i = ''UNAUTHORIZED_FORWARDING''
    \<and> al_type a = ''UNAUTHORIZED_SHARE''
    \<and> al_severity a = ''critical''
    \<and> al_requiresAction a
    \<and> inc_toRecipient i = ev_forwardedTo e
    \<and> inc_fromRecipient i = (if ev_recipientId e = Some [] then None else ev_recipientId e)"
proof -
  from assms have t: "track_forward rq env s = (Responded resp, s')" by simp
  note f = forward_shape [OF t]
  have r: "or_null v = (if v = Some [] then None else v)" for v
    by (cases v) (auto simp: or_null_def or_else_def truthy_def)
  show ?thesis
    apply (rule exI [of _ "last (db_events s')"])
    apply (rule exI [of _ "last (db_incidents s')"])
    apply (rule exI [of _ "row_alert (last (db_alerts s'))"])
    using f by (simp add: r)
qed

text \<open>A forward report of recipient \<open>rcp1\<close> to \<open>ext@x.com\<close>, on the empty store.\<close>

theorem forward_witness:
  "\<exists>resp s'. track Forward forward_request (example_env ''1'' 1700028000000) empty_state
       = (Responded resp, s')
    \<and> (\<exists>e i a.
        db_events s' = db_events empty_state @ [e]
      \<and> db_incidents s' = db_incidents empty_state @ [i]
      \<and> db_alerts s' = db_alerts empty_state @ [\<lparr>row_alert = a, row_createdAt = 1700028000\<rparr>]
      \<and> ev_type e = ''document_forwarded''
      \<and> inc_type i = ''UNAUTHORIZED_FORWARDING''
      \<and> al_type a = ''UNAUTHORIZED_SHARE''
      \<and> al_severity a = ''critical''
      \<and> al_requiresAction a
      \<and> inc_toRecipient i = ev_forwardedTo e
      \<and> inc_fromRecipient i = Some ''rcp1'')"
proof -
  let ?t = "track Forward forward_request (example_env ''1'' 1700028000000) empty_state"
  let ?r = "res_json [(''success'', JBool True), (''incidentCreated'', JBool True)]"
  have f: "fst ?t = Responded ?r"
    by (simp add: eval_defs forward_request_def)
  then have h: "?t = (Responded ?r, snd ?t)"
    by (metis prod.collapse)
  have r: "map ev_recipientId (db_events (snd ?t)) = [Some ''rcp1'']"
    by (simp add: eval_defs forward_request_def)
  have c: "clock_db (example_env ''1'' 1700028000000) = 1700028000"
    by (simp add: example_env_def)
  from forward_creates_incident_and_alert [OF h] obtain e i a where
    x: "db_events (snd ?t) = db_events empty_state @ [e]
      \<and> db_incidents (snd ?t) = db_incidents empty_state @ [i]
      \<and> db_alerts (snd ?t) = db_alerts empty_state @ [\<lparr>row_alert = a, row_createdAt = 1700028000\<rparr>]
      \<and> ev_type e = ''document_forwarded''
      \<and> inc_type i = ''UNAUTHORIZED_FORWARDING''
      \<and> al_type a = ''UNAUTHORIZED_SHARE''
      \<and> al_severity a = ''critical''
      \<and> al_requiresAction a
      \<and> inc_toRecipient i = ev_forwardedTo e
      \<and> inc_fromRecipient i = (if ev_recipientId e = Some [] then None else ev_recipientId e)"
    unfolding c by blast
  with r have "ev_recipientId e = Some ''rcp1''" by (simp add: empty_state_def)
  with x h show ?thesis by (intro exI conjI) (rule h, auto)
qed

text \<open>
  The claim as stated fails on a forward report whose \<open>recipientId\<close> is the empty
  string: the report succeeds, the event keeps the empty string, and the incident's
  \<open>fromRecipient\<close> is NULL.
\<close>

theorem forward_empty_recipient_differs:
  "fst (track Forward forward_empty_recipient (example_env ''1'' 1700028000000) empty_state)
     = Responded (res_json [(''success'', JBool True), (''incidentCreated'', JBool True)])
   \<and> map ev_recipientId
       (db_events (snd (track Forward forward_empty_recipient (example_env ''1'' 1700028000000) empty_state)))
     = [Some []]
   \<and> map inc_fromRecipient
       (db_incidents (snd (track Forward forward_empty_recipient (example_env ''1'' 1700028000000) empty_state)))
     = [None]"
  by (simp add: eval_defs forward_request_def forward_empty_recipient_def)

subsection \<open>Reports without an identifier\<close>

text \<open>
  Claim C7, as the code has it. No handler validates its payload. A structured report
  (document-open, page-view, download, print, forward, copy) that lacks \<open>documentId\<close>
  or \<open>recipientId\<close> is stopped by the NOT NULL constraint of the events table: the
  INSERT throws, the store is left as it was (no event is stored), and the request is
  answered with status 500, a server error.
\<close>

theorem missing_id_is_server_error:
  assumes "r \<noteq> Pixel"
    and "rq_documentId rq = None \<or> rq_recipientId rq = None"
  shows "track r rq env s = (Threw SqliteError, s)
    \<and> rs_status (http_response (fst (track r rq env s))) = 500"
proof -
  have "saveEvent env e s = Inl SqliteError"
    if "ev_documentId e = rq_documentId rq" "ev_recipientId e = rq_recipientId rq" for e
    using that assms(2) by (auto simp: saveEvent_def insertEvent_def Let_def)
  then have "track r rq env s = (Threw SqliteError, s)"
    using assms(1)
    by (cases r)
      (simp_all add: track_document_open_def track_page_view_def track_download_def
        track_print_def track_forward_def track_copy_def Let_def)
  then show ?thesis by (simp add: http_response_def)
qed

text \<open>A document-open report with no \<open>recipientId\<close>.\<close>

theorem missing_id_witness:
  "track Document_Open request_without_recipient (example_env ''1'' 1700028000000) empty_state
     = (Threw SqliteError, empty_state)
   \<and> rs_status (http_response (fst (track Document_Open request_without_recipient
        (example_env ''1'' 1700028000000) empty_state))) = 500"
proof -
  have "rq_documentId request_without_recipient = None
      \<or> rq_recipientId request_without_recipient = None"
    by (simp add: request_without_recipient_def example_request_def)
  moreover have "Document_Open \<noteq> Pixel" by simp
  ultimately show ?thesis by (rule missing_id_is_server_error [rotated])
qed

text \<open>The claim as stated fails there: the answer is not a client error.\<close>

theorem missing_recipient_is_not_client_error:
  "\<not> client_error (http_response (fst (track Document_Open request_without_recipient
        (example_env ''1'' 1700028000000) empty_state)))"
  by (simp add: eval_defs request_without_recipient_def client_error_def)

subsection \<open>The pixel endpoint\<close>

text \<open>
  Claim C8, as the code has it. A pixel request is answered with status 200, the GIF and
  the cache-disabling header exactly when building and storing its event succeed: the
  time value taken from \<open>ts\<close> or the clock is within the range of dates, both
  identifiers are present and the new id is not in the table. Otherwise the handler
  throws before it writes the image, and the answer is status 500 with an error page.
  (A broadcast cannot fail in the model.)
\<close>

theorem pixel_answer:
  "http_response (fst (track Pixel rq env s)) =
     (if \<bar>number_or (parseInt (rq_ts rq)) (clock_event env)\<bar> \<le> 8640000000000000
         \<and> rq_documentId rq \<noteq> None \<and> rq_recipientId rq \<noteq> None
         \<and> or_text (Some (uuid_event env)) (uuid_default env) \<notin> set (map ev_id (db_events s))
      then pixel_response
      else \<lparr>rs_status = 500,
             rs_headers = [(''Content-Type'', ''text/html; charset=utf-8'')],
             rs_body = Error_Page\<rparr>)
   \<and> rs_status pixel_response = 200
   \<and> rs_body pixel_response = Bytes pixel
   \<and> (''Cache-Control'', ''no-cache, no-store, must-revalidate'') \<in> set (rs_headers pixel_response)"
  by (simp add: track_pixel_def Let_def toISOString_def saveEvent_def insertEvent_def
      http_response_def pixel_response_def literal_def split: sum.splits)

text \<open>
  The claim as stated fails on a pixel request whose \<open>ts\<close> is 8640000000000001:
  \<open>toISOString\<close> throws, the answer is status 500 with no image, and nothing is stored.
\<close>

theorem pixel_late_ts_fails:
  "rs_status (http_response (fst (track Pixel pixel_late_ts (example_env ''1'' 1700028000000)
      empty_state))) = 500
   \<and> rs_body (http_response (fst (track Pixel pixel_late_ts (example_env ''1'' 1700028000000)
      empty_state))) = Error_Page
   \<and> db_events (snd (track Pixel pixel_late_ts (example_env ''1'' 1700028000000) empty_state)) = []"
  by (simp add: eval_defs pixel_late_ts_def)

text \<open>
  Claim C10. The event that an answered pixel request stores is stamped with the value
  of \<open>ts\<close> when \<open>parseInt\<close> reads a number other than 0 from it, and with the
  clock of the request when \<open>ts\<close> is absent, when \<open>parseInt\<close> reads no number
  from it (\<open>NaN\<close>), and when it reads 0.
\<close>

theorem pixel_timestamp:
  assumes "track Pixel rq env s = (Responded resp, s')"
  shows "\<exists>e. db_events s' = db_events s @ [e]
    \<and> ev_type e = ''pixel_beacon''
    \<and> ev_timestamp e =
        (case parseInt (rq_ts rq) of
           None \<Rightarrow> clock_event env
         | Some n \<Rightarrow> if n = 0 then clock_event env else n)
    \<and> (rq_ts rq = None \<longrightarrow> ev_timestamp e = clock_event env)"
proof -
  from assms have "db_events s' = db_events s @ [last (db_events s')]
    \<and> ev_type (last (db_events s')) = ''pixel_beacon''
    \<and> ev_timestamp (last (db_events s')) = number_or (parseInt (rq_ts rq)) (clock_event env)"
    by (auto simp: track_pixel_def Let_def toISOString_def saveEvent_def insertEvent_def
        split: sum.splits if_splits)
  then show ?thesis
    using parseInt_examples(1)
    by (intro exI [of _ "last (db_events s')"]) (auto simp: number_or_def)
qed

text \<open>
  A pixel request with \<open>ts=1700000000123\<close>, received when the clock reads
  1700028000000, and one with \<open>ts=0\<close>.
\<close>

theorem pixel_timestamp_witness:
  "map ev_timestamp (db_events (snd (track Pixel pixel_with_ts (example_env ''1'' 1700028000000)
      empty_state))) = [1700000000123]
   \<and> map ev_timestamp (db_events (snd (track Pixel pixel_zero_ts (example_env ''1'' 1700028000000)
      empty_state))) = [1700028000000]"
proof -
  let ?t = "track Pixel pixel_with_ts (example_env ''1'' 1700028000000) empty_state"
  let ?z = "track Pixel pixel_zero_ts (example_env ''1'' 1700028000000) empty_state"
  have "fst ?t = Responded pixel_response"
    by (simp add: eval_defs pixel_with_ts_def)
  then have h: "?t = (Responded pixel_response, snd ?t)"
    by (metis prod.collapse)
  have "fst ?z = Responded pixel_response"
    by (simp add: eval_defs pixel_zero_ts_def)
  then have k: "?z = (Responded pixel_response, snd ?z)"
    by (metis prod.collapse)
  have p: "parseInt (rq_ts pixel_with_ts) = Some 1700000000123"
    "parseInt (rq_ts pixel_zero_ts) = Some 0"
    by (simp_all add: pixel_with_ts_def pixel_zero_ts_def parseInt_examples)
  have c: "clock_event (example_env ''1'' 1700028000000) = 1700028000000"
    by (simp add: example_env_def)
  from pixel_timestamp [OF h] pixel_timestamp [OF k] show ?thesis
    by (auto simp: p c empty_state_def)
qed

subsection \<open>The order of event timestamps\<close>

text \<open>
  The order of ISO texts on examples: the year 10000 before the year -1; the last
  instant of the year -1 before the year 0; within the year -1 the first instant before
  the last; the year -1 before the year -2; the year 0 before the year 2023, and that
  before the year 9999; the year 10000 before the last date.
\<close>

lemma iso_order_examples:
  "iso_order 253402300800000 < iso_order (- 62167219200001)"
  "iso_order (- 62167219200001) < iso_order (- 62167219200000)"
  "iso_order (- 62198755200000) < iso_order (- 62167219200001)"
  "iso_order (- 62167219200001) < iso_order (- 62198755200001)"
  "iso_order (- 62167219200000) < iso_order 1700028000000"
  "iso_order 1700028000000 < iso_order 253402300799999"
  "iso_order 253402300800000 < iso_order 8640000000000000"
  by code_simp+

subsection \<open>The alert and incident listings\<close>

lemma newest_first_sorted:
  "sorted_wrt (\<lambda>a b. key a \<ge> key b) (newest_first key xs)"
proof -
  have "sorted (map (\<lambda>x. - key x) (sort_key (\<lambda>x. - key x) xs))" by (rule sorted_sort_key)
  then show ?thesis by (simp add: newest_first_def sorted_map)
qed

lemma newest_first_mset: "mset (newest_first key xs) = mset xs"
  by (simp add: newest_first_def)

text \<open>
  Claim C6, as the code has it. The alert listing returns the 100 newest alerts, newest
  first, or all of them when there are fewer: it is the front of a newest-first
  arrangement of the whole table. The incident listing returns every incident of the
  table, newest first; its query has no LIMIT.
\<close>

theorem listings_newest_first:
  "length (snd (list_alerts s)) = min 100 (length (db_alerts s))
   \<and> (\<exists>older. mset (snd (list_alerts s) @ older) = mset (db_alerts s)
        \<and> sorted_wrt (\<lambda>a b. row_createdAt a \<ge> row_createdAt b) (snd (list_alerts s) @ older))
   \<and> mset (snd (list_incidents s)) = mset (db_incidents s)
   \<and> sorted_wrt (\<lambda>a b. inc_timestamp a \<ge> inc_timestamp b) (snd (list_incidents s))"
proof -
  let ?all = "newest_first row_createdAt (db_alerts s)"
  have a: "snd (list_alerts s) = take 100 ?all" by (simp add: list_alerts_def Let_def)
  have "length ?all = length (db_alerts s)" by (simp add: newest_first_def)
  then have l: "length (snd (list_alerts s)) = min 100 (length (db_alerts s))"
    using a by simp
  have "mset (snd (list_alerts s) @ drop 100 ?all) = mset (db_alerts s)"
    using a newest_first_mset [of row_createdAt "db_alerts s"] by simp
  moreover have "sorted_wrt (\<lambda>a b. row_createdAt a \<ge> row_createdAt b)
      (snd (list_alerts s) @ drop 100 ?all)"
    using a newest_first_sorted [of row_createdAt "db_alerts s"] by simp
  ultimately have e: "\<exists>older. mset (snd (list_alerts s) @ older) = mset (db_alerts s)
        \<and> sorted_wrt (\<lambda>a b. row_createdAt a \<ge> row_createdAt b) (snd (list_alerts s) @ older)"
    by blast
  have i: "snd (list_incidents s) = newest_first inc_timestamp (db_incidents s)"
    by (simp add: list_incidents_def Let_def)
  show ?thesis
    using l e i newest_first_mset [of inc_timestamp "db_incidents s"]
      newest_first_sorted [of inc_timestamp "db_incidents s"]
    by simp
qed

text \<open>
  The claim as stated fails on a store of 101 incidents: the listing returns all 101.
\<close>

theorem incidents_uncapped:
  "length (snd (list_incidents many_incidents)) = 101
   \<and> \<not> length (snd (list_incidents many_incidents)) \<le> 100"
  by (simp add: list_incidents_def Let_def newest_first_def many_incidents_def empty_state_def)

subsection \<open>The rapid-access check\<close>

lemma rapid_filter:
  "filter (\<lambda>f. fd_type f = ''RAPID_ACCESS'') (anomalies_of now h e es) =
     (if length (filter (\<lambda>x. now - 60000 \<le> ev_timestamp x) es) > 5
      then [\<lparr>fd_type = ''RAPID_ACCESS'', fd_severity = ''high'',
             fd_message = show_nat (length (filter (\<lambda>x. now - 60000 \<le> ev_timestamp x) es))
               @ '' accesses in 1 minute - possible data exfiltration''\<rparr>]
      else [])"
  by (simp add: anomalies_of_def Let_def)

text \<open>
  Claim C5, as the code has it. Each run of the anomaly evaluation for a recipient counts
  the recipient's stored events whose timestamp is not earlier than 60 seconds before the
  evaluation time; an event stamped later than the evaluation time is counted as well.
  With more than 5 such events the evaluation has exactly one RAPID_ACCESS finding, of
  severity high; with 5 or fewer it has none.
\<close>

theorem rapid_access_rule:
  "\<exists>fs. evaluations (trace (checkForAnomalies env event rid s)) = evaluations (trace s) @ [fs]
     \<and> filter (\<lambda>f. fd_type f = ''RAPID_ACCESS'') fs =
        (if length (filter (\<lambda>x. clock_check env - 60000 \<le> ev_timestamp x)
                     (events_of_recipient rid s)) > 5
         then [\<lparr>fd_type = ''RAPID_ACCESS'', fd_severity = ''high'',
                fd_message =
                  show_nat (length (filter (\<lambda>x. clock_check env - 60000 \<le> ev_timestamp x)
                     (events_of_recipient rid s)))
                  @ '' accesses in 1 minute - possible data exfiltration''\<rparr>]
         else [])"
  using check_evaluations [of env event rid s] rapid_filter by blast

lemma future_beacon_step:
  assumes "''e'' @ tag \<notin> set (map ev_id (db_events s))"
  shows "step (future_beacon tag) s =
     s\<lparr>db_events := db_events s @ [beacon_event tag],
       trace := trace s @ [Broadcast (TRACKING_EVENT (beacon_event tag))]\<rparr>"
  using assms
  by (simp add: eval_defs future_beacon_def beacon_event_def)

lemma beacon_fields [simp]:
  "ev_id (beacon_event tag) = ''e'' @ tag"
  "ev_recipientId (beacon_event tag) = Some ''rcp1''"
  "ev_timestamp (beacon_event tag) = 4102444800000"
  "ev_location (beacon_event tag) = Some ''Paris, FR''"
  by (simp_all add: beacon_event_def)

lemma six_future_beacons_stored:
  "db_events (run six_future_beacons empty_state) =
     [beacon_event ''1'', beacon_event ''2'', beacon_event ''3'',
      beacon_event ''4'', beacon_event ''5'', beacon_event ''6'']
   \<and> evaluations (trace (run six_future_beacons empty_state)) = []"
  by (simp add: six_future_beacons_def future_beacon_step empty_state_def)

text \<open>
  The claim as stated fails after six pixel beacons of one recipient whose \<open>ts\<close> lies
  in the year 2100: when the recipient then opens the document, one stored event of the
  recipient (the document-open itself) lies within the 60 seconds that end at the
  evaluation time, and the evaluation reports RAPID_ACCESS.
\<close>

theorem future_beacons_counted:
  "length (spec_trailing_minute 1700042400000
      (events_of_recipient (Some ''rcp1'')
         (run (six_future_beacons @ [open_after_beacons]) empty_state))) = 1
   \<and> map (map fd_type)
       (evaluations (trace (run (six_future_beacons @ [open_after_beacons]) empty_state)))
     = [[''RAPID_ACCESS'']]"
  unfolding run_append
  using six_future_beacons_stored
  by (simp add: open_after_beacons_def track_document_open_def saveEvent_def insertEvent_def
      getClientIP_def getLocationFromIP_def parseBrowserInfo_def
      or_text_def or_else_def or_null_def truthy_def template_def literal_def
      check_evaluations events_of_recipient_def anomalies_of_def
      uniq_def example_geoip_def example_env_def example_request_def Let_def
      spec_trailing_minute_def)

subsection \<open>The unusual-location check\<close>

lemma location_filter:
  "filter (\<lambda>f. fd_type f = ''UNUSUAL_LOCATION'') (anomalies_of now h e es) =
     (if length (uniq (filter truthy (map ev_location es))) > 3 \<and> truthy (ev_location e)
         \<and> ev_location e \<notin> set (map ev_location es)
      then [\<lparr>fd_type = ''UNUSUAL_LOCATION'', fd_severity = ''medium'',
             fd_message = ''New location detected: '' @ template (ev_location e)\<rparr>]
      else [])"
  by (auto simp: anomalies_of_def Let_def uniq_def)

text \<open>An event that is among the events it is checked against never has a new location.\<close>

lemma own_location_seen:
  "e \<in> set es \<Longrightarrow> filter (\<lambda>f. fd_type f = ''UNUSUAL_LOCATION'') (anomalies_of now h e es) = []"
  by (simp add: location_filter)

lemma document_open_in_history:
  assumes "db_events (snd (track_document_open rq env s)) \<noteq> db_events s"
  shows "last (db_events (snd (track_document_open rq env s)))
    \<in> set (events_of_recipient (rq_recipientId rq) (snd (track_document_open rq env s)))"
  using assms
  by (auto simp: track_document_open_def Let_def events_of_recipient_def
      split: sum.splits dest!: saveEvent_Inr)

text \<open>
  The handler inserts the event before it reads the recipient's events, so the check
  always finds the event's own location among them: no tracking request, on any store,
  reports UNUSUAL_LOCATION.
\<close>

lemma unusual_location_never_reported:
  "\<exists>new. evaluations (trace (snd (track r rq env s))) = evaluations (trace s) @ new
     \<and> filter (\<lambda>f. fd_type f = ''UNUSUAL_LOCATION'') (concat new) = []"
proof (cases "r = Document_Open \<and> db_events (snd (track r rq env s)) \<noteq> db_events s")
  case True
  then have "last (db_events (snd (track r rq env s)))
    \<in> set (events_of_recipient (rq_recipientId rq) (snd (track r rq env s)))"
    using document_open_in_history [of rq env s] by auto
  then show ?thesis
    using True track_evaluations [of r rq env s]
    by (simp add: own_location_seen)
next
  case False
  then show ?thesis
    using track_evaluations [of r rq env s] by auto
qed

text \<open>
  Claim C1, on the code. A recipient has opened the document from Paris, Berlin, Madrid
  and Rome (four distinct locations in the history) and now opens it from Oslo, a
  location not seen before. The claim expects an UNUSUAL_LOCATION finding. The handler
  stores the event first, so the history it reads already holds Oslo, and the fifth
  evaluation, like the four before it, has no finding at all. The check itself, given
  the event and the history as it was before the request, does report UNUSUAL_LOCATION.
\<close>

theorem fifth_place_goes_unreported:
  "map ev_location (events_of_recipient (Some ''rcp1'') (run four_places empty_state))
     = [Some ''Paris, FR'', Some ''Berlin, DE'', Some ''Madrid, ES'', Some ''Rome, IT'']
   \<and> map ev_location (db_events (run (four_places @ [fifth_place]) empty_state))
     = [Some ''Paris, FR'', Some ''Berlin, DE'', Some ''Madrid, ES'', Some ''Rome, IT'',
        Some ''Oslo, NO'']
   \<and> evaluations (trace (run (four_places @ [fifth_place]) empty_state)) = [[], [], [], [], []]
   \<and> map fd_type
       (anomalies_of (clock_check (example_env ''5'' 1700042400000))
          (local_hour (example_env ''5'' 1700042400000))
          (last (db_events (run (four_places @ [fifth_place]) empty_state)))
          (events_of_recipient (Some ''rcp1'') (run four_places empty_state)))
     = [''UNUSUAL_LOCATION'']"
  by code_simp

end
